theory Spec2Isabelle
  imports Complex_Main
begin

section \<open>Python values\<close>

text \<open>
  The program handles JSON-shaped Python values: the planner's parameters, the tools'
  results and the context dictionary. A dictionary is an association list in insertion
  order whose keys are strings (every dictionary of the program is decoded from JSON or
  built with string keys). Integers are unbounded, as Python's are. Floats are
  idealised as reals: rounding, infinities and NaN are outside the model. What is in the
  model is the OverflowError of an integer that is too large to become a float.
\<close>

datatype pyval =
    PNone
  | PBool bool
  | PInt int
  | PFloat real
  | PStr string
  | PList "pyval list"
  | PDict "(string \<times> pyval) list"

type_synonym pydict = "(string \<times> pyval) list"

text \<open>The exceptions the modelled code can raise or catch; \<open>Fault\<close> is any exception
  raised by the external collaborator call, carrying its description.\<close>

datatype py_exception =
    TypeError
  | ZeroDivisionError
  | OverflowError
  | NameError string
  | AttributeError
  | ValidationError
  | JSONDecodeError
  | Fault string

type_synonym 'a result = "py_exception + 'a"

text \<open>\<open>isinstance(v, (int, float))\<close>: \<open>bool\<close> is a subclass of \<open>int\<close>, so booleans pass
  the test and count as the integers 1 and 0 in arithmetic.\<close>

datatype pynum = NInt int | NFloat real

fun num_of :: "pyval \<Rightarrow> pynum option" where
  "num_of (PBool b) = Some (NInt (if b then 1 else 0))"
| "num_of (PInt i) = Some (NInt i)"
| "num_of (PFloat r) = Some (NFloat r)"
| "num_of _ = None"

definition is_number :: "pyval \<Rightarrow> bool" where
  "is_number v = (num_of v \<noteq> None)"

fun num_value :: "pynum \<Rightarrow> real" where
  "num_value (NInt i) = of_int i"
| "num_value (NFloat r) = r"

subsection \<open>Arithmetic\<close>

text \<open>
  A value rounds to a finite double exactly when its magnitude is below the midpoint
  between the largest double and \<open>2 ^ 1024\<close>. An integer operand of a float operation
  that does not (\<open>int too large to convert to float\<close>), and a true division of two
  integers whose quotient does not (\<open>integer division result too large for a float\<close>),
  raise OverflowError.
\<close>

definition float_limit :: real where
  "float_limit = 2 ^ 1024 - 2 ^ 970"

definition fits_float :: "real \<Rightarrow> bool" where
  "fits_float x = (\<bar>x\<bar> < float_limit)"

fun to_float :: "pynum \<Rightarrow> real result" where
  "to_float (NFloat r) = Inr r"
| "to_float (NInt i) = (if fits_float (of_int i) then Inr (of_int i) else Inl OverflowError)"

text \<open>\<open>x + y\<close> and \<open>x - y\<close>: exact on two integers, otherwise on floats.\<close>

fun py_add :: "pynum \<Rightarrow> pynum \<Rightarrow> pynum result" where
  "py_add (NInt a) (NInt b) = Inr (NInt (a + b))"
| "py_add x y =
     (case to_float x of
        Inl e \<Rightarrow> Inl e
      | Inr a \<Rightarrow> (case to_float y of Inl e \<Rightarrow> Inl e | Inr b \<Rightarrow> Inr (NFloat (a + b))))"

fun py_sub :: "pynum \<Rightarrow> pynum \<Rightarrow> pynum result" where
  "py_sub (NInt a) (NInt b) = Inr (NInt (a - b))"
| "py_sub x y =
     (case to_float x of
        Inl e \<Rightarrow> Inl e
      | Inr a \<Rightarrow> (case to_float y of Inl e \<Rightarrow> Inl e | Inr b \<Rightarrow> Inr (NFloat (a - b))))"

text \<open>\<open>x / y\<close>, a float. Two integers are tested for a zero divisor first and divided
  exactly; otherwise both operands are converted before the divisor is tested.\<close>

fun py_truediv :: "pynum \<Rightarrow> pynum \<Rightarrow> real result" where
  "py_truediv (NInt a) (NInt b) =
     (if b = 0 then Inl ZeroDivisionError
      else if fits_float (of_int a / of_int b) then Inr (of_int a / of_int b)
      else Inl OverflowError)"
| "py_truediv x y =
     (case to_float x of
        Inl e \<Rightarrow> Inl e
      | Inr a \<Rightarrow>
          (case to_float y of
             Inl e \<Rightarrow> Inl e
           | Inr b \<Rightarrow> if b = 0 then Inl ZeroDivisionError else Inr (a / b)))"

text \<open>Truth value of a Python object (\<open>not period\<close>, \<open>not unresolved\<close>).\<close>

fun truthy :: "pyval \<Rightarrow> bool" where
  "truthy PNone = False"
| "truthy (PBool b) = b"
| "truthy (PInt i) = (i \<noteq> 0)"
| "truthy (PFloat r) = (r \<noteq> 0)"
| "truthy (PStr s) = (s \<noteq> [])"
| "truthy (PList xs) = (xs \<noteq> [])"
| "truthy (PDict d) = (d \<noteq> [])"

text \<open>Lists and dictionaries are unhashable: using one as a dictionary key, also in a
  lookup, raises TypeError.\<close>

fun hashable :: "pyval \<Rightarrow> bool" where
  "hashable (PList xs) = False"
| "hashable (PDict d) = False"
| "hashable _ = True"

subsection \<open>The interpreter and the libraries\<close>

text \<open>
  What the Python interpreter and the imported libraries compute is taken as a
  parameter: the text of a float, list or dictionary under \<open>str()\<close>, the text of an
  exception under \<open>str(e)\<close>, and \<open>json.loads\<close>. Every theorem holds for all of them.
\<close>

record runtime =
  str_other :: "pyval \<Rightarrow> string"
  str_exception :: "py_exception \<Rightarrow> string"
  json_loads :: "string \<Rightarrow> py_exception + pyval"

fun str_nat :: "nat \<Rightarrow> string" where
  "str_nat n =
     (if n < 10 then [char_of (48 + n)]
      else str_nat (n div 10) @ [char_of (48 + n mod 10)])"

definition str_int :: "int \<Rightarrow> string" where
  "str_int i = (if i < 0 then CHR ''-'' # str_nat (nat (- i)) else str_nat (nat i))"

text \<open>\<open>str(v)\<close>, as an f-string renders a value.\<close>

fun py_str :: "runtime \<Rightarrow> pyval \<Rightarrow> string" where
  "py_str rt (PStr s) = s"
| "py_str rt PNone = ''None''"
| "py_str rt (PBool b) = (if b then ''True'' else ''False'')"
| "py_str rt (PInt i) = str_int i"
| "py_str rt v = str_other rt v"

subsection \<open>Strings\<close>

fun startswith :: "string \<Rightarrow> string \<Rightarrow> bool" where
  "startswith s [] = True"
| "startswith [] (p # ps) = False"
| "startswith (c # cs) (p # ps) = (c = p \<and> startswith cs ps)"

text \<open>\<open>sub in s\<close> for two strings.\<close>

fun contains :: "string \<Rightarrow> string \<Rightarrow> bool" where
  "contains [] sub = (sub = [])"
| "contains (c # cs) sub = (startswith (c # cs) sub \<or> contains cs sub)"

subsection \<open>Dictionary operations\<close>

definition keys :: "pydict \<Rightarrow> string set" where
  "keys d = set (map fst d)"

text \<open>\<open>d[k] = v\<close>: an existing key keeps its position, a new key goes last.\<close>

fun dict_set :: "pydict \<Rightarrow> string \<Rightarrow> pyval \<Rightarrow> pydict" where
  "dict_set [] k v = [(k, v)]"
| "dict_set ((k', v') # d) k v =
     (if k' = k then (k, v) # d else (k', v') # dict_set d k v)"

text \<open>\<open>d.update(e)\<close> and \<open>{**d, **e}\<close>: the entries of \<open>e\<close> are stored in order.\<close>

fun dict_update :: "pydict \<Rightarrow> pydict \<Rightarrow> pydict" where
  "dict_update d [] = d"
| "dict_update d ((k, v) # e) = dict_update (dict_set d k v) e"

text \<open>\<open>key in d\<close> and \<open>d[key]\<close> for a key of any type. The keys of \<open>d\<close> are strings, so
  only a string can be found; an unhashable key raises TypeError, also on a lookup.\<close>

fun dict_lookup :: "(string \<times> 'a) list \<Rightarrow> pyval \<Rightarrow> 'a option result" where
  "dict_lookup d (PStr s) = Inr (map_of d s)"
| "dict_lookup d (PList xs) = Inl TypeError"
| "dict_lookup d (PDict e) = Inl TypeError"
| "dict_lookup d _ = Inr None"

text \<open>\<open>d.get(x, x)\<close>.\<close>

definition dict_get_self :: "pydict \<Rightarrow> pyval \<Rightarrow> pyval result" where
  "dict_get_self d x =
     (case dict_lookup d x of
        Inl e \<Rightarrow> Inl e
      | Inr None \<Rightarrow> Inr x
      | Inr (Some v) \<Rightarrow> Inr v)"

section \<open>The tool functions (action.py)\<close>

definition error_value :: "string \<Rightarrow> pyval" where
  "error_value reason = PDict [(''error'', PStr reason)]"

subsection \<open>calculate_roi\<close>

text \<open>
  One pair of the source's conditional expression
  \<^verbatim>\<open>((r - i) / i) * 100 if i > 0 else 0\<close>.
  The condition is evaluated first: \<open>i > 0\<close> raises TypeError unless \<open>i\<close> is a number;
  only when it holds is \<open>r - i\<close> evaluated, which raises TypeError unless \<open>r\<close> is a
  number. The division is a true division (a float), multiplied by the integer 100 as
  a float; the other branch is the integer 0.
\<close>

definition roi_pair :: "pyval \<Rightarrow> pyval \<Rightarrow> pyval result" where
  "roi_pair r i =
     (case num_of i of
        None \<Rightarrow> Inl TypeError
      | Some iv \<Rightarrow>
          if num_value iv > 0 then
            (case num_of r of
               None \<Rightarrow> Inl TypeError
             | Some rv \<Rightarrow>
                 (case py_sub rv iv of
                    Inl e \<Rightarrow> Inl e
                  | Inr d \<Rightarrow>
                      (case py_truediv d iv of
                         Inl e \<Rightarrow> Inl e
                       | Inr q \<Rightarrow> Inr (PFloat (q * 100)))))
          else Inr (PInt 0))"

text \<open>The list comprehension over \<open>zip(revenue, investment)\<close>: the first pair that raises
  aborts the whole comprehension.\<close>

fun roi_list :: "pyval list \<Rightarrow> pyval list \<Rightarrow> pyval list result" where
  "roi_list (r # rs) (i # is) =
     (case roi_pair r i of
        Inl e \<Rightarrow> Inl e
      | Inr v \<Rightarrow> (case roi_list rs is of Inl e \<Rightarrow> Inl e | Inr vs \<Rightarrow> Inr (v # vs)))"
| "roi_list _ _ = Inr []"

definition calculate_roi :: "pyval \<Rightarrow> pyval \<Rightarrow> pyval result" where
  "calculate_roi revenue investment =
     (case (revenue, investment) of
        (PList rs, PList is) \<Rightarrow>
          if length rs \<noteq> length is
          then Inr (error_value ''Revenue and investment lists must be the same length'')
          else (case roi_list rs is of Inl e \<Rightarrow> Inl e | Inr vs \<Rightarrow> Inr (PList vs))
      | _ \<Rightarrow>
          if is_number revenue \<and> is_number investment
          then roi_pair revenue investment
          else Inr (error_value ''Invalid input types for revenue and investment''))"

subsection \<open>apply_inflation_adjustment\<close>

text \<open>
  \<^verbatim>\<open>value / (1 + rate)\<close>: \<open>1 + rate\<close> raises TypeError unless \<open>rate\<close> is a number, the
  division raises TypeError unless \<open>value\<close> is a number, ZeroDivisionError when
  \<open>1 + rate\<close> is zero, and OverflowError as every true division does.
\<close>

definition adjust_one :: "pyval \<Rightarrow> pyval \<Rightarrow> pyval result" where
  "adjust_one v rate =
     (case num_of rate of
        None \<Rightarrow> Inl TypeError
      | Some rt \<Rightarrow>
          (case py_add (NInt 1) rt of
             Inl e \<Rightarrow> Inl e
           | Inr d \<Rightarrow>
               (case num_of v of
                  None \<Rightarrow> Inl TypeError
                | Some x \<Rightarrow>
                    (case py_truediv x d of
                       Inl e \<Rightarrow> Inl e
                     | Inr q \<Rightarrow> Inr (PFloat q)))))"

fun adjust_list :: "pyval list \<Rightarrow> pyval \<Rightarrow> pyval list result" where
  "adjust_list [] rate = Inr []"
| "adjust_list (v # vs) rate =
     (case adjust_one v rate of
        Inl e \<Rightarrow> Inl e
      | Inr a \<Rightarrow> (case adjust_list vs rate of Inl e \<Rightarrow> Inl e | Inr as \<Rightarrow> Inr (a # as)))"

definition apply_inflation_adjustment :: "pyval \<Rightarrow> pyval \<Rightarrow> pyval result" where
  "apply_inflation_adjustment vals rate =
     (case vals of
        PList vs \<Rightarrow> (case adjust_list vs rate of Inl e \<Rightarrow> Inl e | Inr as \<Rightarrow> Inr (PList as))
      | _ \<Rightarrow>
          if is_number vals then adjust_one vals rate
          else Inr (error_value ''Invalid input type for values''))"

subsection \<open>get_financial_data\<close>

type_synonym quarters = "(string \<times> pydict) list"

definition metrics :: "real \<Rightarrow> real \<Rightarrow> real \<Rightarrow> real \<Rightarrow> pydict" where
  "metrics revenue investment profit expenses =
     [(''revenue'', PFloat revenue), (''investment'', PFloat investment),
      (''profit'', PFloat profit), (''expenses'', PFloat expenses)]"

definition DUMMY_DATA :: "(string \<times> quarters) list" where
  "DUMMY_DATA =
     [(''AAPL'',
        [(''Q1_2023'', metrics 94.8 25.1 24.2 70.6),
         (''Q2_2023'', metrics 81.8 23.8 19.9 61.9),
         (''Q3_2023'', metrics 89.5 24.3 22.6 66.9),
         (''Q4_2023'', metrics 119.6 27.5 33.9 85.7),
         (''Q1_2024'', metrics 90.8 24.6 23.1 67.7),
         (''Q2_2024'', metrics 85.3 24.1 21.5 63.8)]),
      (''MSFT'',
        [(''Q1_2023'', metrics 52.7 15.3 18.3 34.4),
         (''Q2_2023'', metrics 56.2 16.1 20.1 36.1),
         (''Q3_2023'', metrics 56.5 16.3 20.5 36.0),
         (''Q4_2023'', metrics 62.0 17.5 21.9 40.1),
         (''Q1_2024'', metrics 61.9 17.2 21.8 40.1),
         (''Q2_2024'', metrics 64.7 18.1 22.5 42.2)]),
      (''AMZN'',
        [(''Q1_2023'', metrics 127.4 42.5 3.2 124.2),
         (''Q2_2023'', metrics 134.4 44.8 6.7 127.7),
         (''Q3_2023'', metrics 143.1 47.2 9.9 133.2),
         (''Q4_2023'', metrics 169.9 52.3 10.6 159.3),
         (''Q1_2024'', metrics 143.3 46.8 10.4 132.9),
         (''Q2_2024'', metrics 148.2 48.1 13.7 134.5)])]"

text \<open>A table of quarters as the dictionary of dictionaries the function returns.\<close>

definition quarters_value :: "quarters \<Rightarrow> pyval" where
  "quarters_value t = PDict (map (\<lambda>(q, m). (q, PDict m)) t)"

text \<open>
  The four tests of the source in their order: the symbol, \<open>not period\<close> (so \<open>None\<close> and
  every other falsy value return the whole table), \<open>period in ["2023", "2024"]\<close>, and
  \<open>period in DUMMY_DATA[symbol]\<close>. A membership test in a dictionary hashes the key.
\<close>

definition get_financial_data :: "runtime \<Rightarrow> pyval \<Rightarrow> pyval \<Rightarrow> pyval result" where
  "get_financial_data rt symbol period =
     (case dict_lookup DUMMY_DATA symbol of
        Inl e \<Rightarrow> Inl e
      | Inr None \<Rightarrow> Inr (error_value (''No data available for symbol '' @ py_str rt symbol))
      | Inr (Some table) \<Rightarrow>
          if \<not> truthy period then Inr (quarters_value table)
          else if period \<in> set [PStr ''2023'', PStr ''2024'']
          then Inr (quarters_value
                 (filter (\<lambda>(quarter, d). contains quarter (py_str rt period)) table))
          else
            (case dict_lookup table period of
               Inl e \<Rightarrow> Inl e
             | Inr (Some d) \<Rightarrow> Inr (PDict [(py_str rt period, PDict d)])
             | Inr None \<Rightarrow>
                 Inr (error_value (''No data available for period '' @ py_str rt period))))"

subsection \<open>execute_action\<close>

record ActionInput =
  function_name :: string
  parameters :: pydict

record ActionOutput =
  success :: bool
  result :: pydict
  message :: string

text \<open>
  Keyword-style binding \<open>f(**parameters)\<close>: a keyword that is not a parameter of \<open>f\<close> and
  a missing parameter without default both raise TypeError.
\<close>

definition bind_kwargs :: "string list \<Rightarrow> string list \<Rightarrow> pydict \<Rightarrow> bool" where
  "bind_kwargs required optional ps =
     (list_all (\<lambda>(k, v). k \<in> set (required @ optional)) ps \<and>
      list_all (\<lambda>k. k \<in> set (map fst ps)) required)"

definition kwarg :: "pydict \<Rightarrow> string \<Rightarrow> pyval" where
  "kwarg ps name = (case map_of ps name of Some v \<Rightarrow> v | None \<Rightarrow> PNone)"

text \<open>The three calls \<open>f(**ai.parameters)\<close> of the dispatcher.\<close>

definition call_get_financial_data :: "runtime \<Rightarrow> pydict \<Rightarrow> pyval result" where
  "call_get_financial_data rt ps =
     (if bind_kwargs [''symbol''] [''period''] ps
      then get_financial_data rt (kwarg ps ''symbol'') (kwarg ps ''period'')
      else Inl TypeError)"

definition call_calculate_roi :: "pydict \<Rightarrow> pyval result" where
  "call_calculate_roi ps =
     (if bind_kwargs [''revenue'', ''investment''] [] ps
      then calculate_roi (kwarg ps ''revenue'') (kwarg ps ''investment'')
      else Inl TypeError)"

definition call_apply_inflation_adjustment :: "pydict \<Rightarrow> pyval result" where
  "call_apply_inflation_adjustment ps =
     (if bind_kwargs [''values'', ''rate''] [] ps
      then apply_inflation_adjustment (kwarg ps ''values'') (kwarg ps ''rate'')
      else Inl TypeError)"

text \<open>The end of the \<open>try\<close> block and its \<open>except Exception\<close> handler.\<close>

definition action_output :: "runtime \<Rightarrow> string \<Rightarrow> pyval result \<Rightarrow> ActionOutput" where
  "action_output rt name r =
     (case r of
        Inr res \<Rightarrow>
          \<lparr>success = True, result = [(name, res)], message = name @ '' executed.''\<rparr>
      | Inl e \<Rightarrow> \<lparr>success = False, result = [], message = str_exception rt e\<rparr>)"

text \<open>
  The dispatcher. No \<open>generate_chart\<close> is defined or imported in the module, so
  evaluating that name in the fourth branch raises NameError inside the \<open>try\<close> block.
\<close>

definition execute_action :: "runtime \<Rightarrow> ActionInput \<Rightarrow> ActionOutput" where
  "execute_action rt ai =
     (if function_name ai = ''get_financial_data'' then
        action_output rt (function_name ai) (call_get_financial_data rt (parameters ai))
      else if function_name ai = ''calculate_roi'' then
        action_output rt (function_name ai) (call_calculate_roi (parameters ai))
      else if function_name ai = ''apply_inflation_adjustment'' then
        action_output rt (function_name ai) (call_apply_inflation_adjustment (parameters ai))
      else if function_name ai = ''generate_chart'' then
        action_output rt (function_name ai) (Inl (NameError ''generate_chart''))
      else \<lparr>success = False, result = [], message = ''Unknown tool '' @ function_name ai\<rparr>)"

section \<open>The collaborator\<close>

text \<open>
  One call of \<open>client.models.generate_content\<close> either raises or returns a response
  whose \<open>text\<close> is a string or \<open>None\<close>. The collaborator is a function from the number of
  calls made before to the outcome of the next call; the callers return the updated
  count, so that a theorem can say how often the collaborator was consulted.
\<close>

datatype llm_response = Raises py_exception | Responds "string option"

type_synonym llm = "nat \<Rightarrow> llm_response"

subsection \<open>Unwrapping the response text\<close>

text \<open>Whitespace for \<open>str.strip()\<close>, on code points below 256.\<close>

definition py_isspace :: "char \<Rightarrow> bool" where
  "py_isspace c =
     ((9 \<le> (of_char c :: nat) \<and> (of_char c :: nat) \<le> 13) \<or>
      (28 \<le> (of_char c :: nat) \<and> (of_char c :: nat) \<le> 32) \<or>
      (of_char c :: nat) = 133 \<or> (of_char c :: nat) = 160)"

definition strip_chars :: "(char \<Rightarrow> bool) \<Rightarrow> string \<Rightarrow> string" where
  "strip_chars P s = rev (dropWhile P (rev (dropWhile P s)))"

definition strip :: "string \<Rightarrow> string" where
  "strip s = strip_chars py_isspace s"

text \<open>The text before and after the first occurrence of a separator, if there is one:
  \<open>s.split(sep, 1)\<close>.\<close>

fun split_once :: "string \<Rightarrow> string \<Rightarrow> (string \<times> string) option" where
  "split_once [] sep = (if sep = [] then Some ([], []) else None)"
| "split_once (c # cs) sep =
     (if startswith (c # cs) sep then Some ([], drop (length sep) (c # cs))
      else map_option (\<lambda>(b, a). (c # b, a)) (split_once cs sep))"

text \<open>\<open>text.split("```json", 1)[1].split("```", 1)[0].strip()\<close>, when the fence is there.\<close>

definition fenced_json :: "string \<Rightarrow> string option" where
  "fenced_json text =
     (case split_once text ''```json'' of
        None \<Rightarrow> None
      | Some (before, rest) \<Rightarrow>
          Some (strip (case split_once rest ''```'' of
                         None \<Rightarrow> rest
                       | Some (body, after) \<Rightarrow> body)))"

text \<open>The planner also strips the backquotes of an anonymous fence; the resolver does not.\<close>

definition planner_text :: "string \<Rightarrow> string" where
  "planner_text raw =
     (let text = strip raw in
      case fenced_json text of
        Some body \<Rightarrow> body
      | None \<Rightarrow>
          if startswith text ''```'' then strip_chars (\<lambda>c. c = CHR 0x60) text else text)"

definition resolver_text :: "string \<Rightarrow> string" where
  "resolver_text raw =
     (let text = strip raw in
      case fenced_json text of Some body \<Rightarrow> body | None \<Rightarrow> text)"

section \<open>The parameter resolver (main.py)\<close>

text \<open>\<open>[context.get(x, x) for x in v]\<close>: the first unhashable element raises.\<close>

fun subst_list :: "pydict \<Rightarrow> pyval list \<Rightarrow> pyval list result" where
  "subst_list ctx [] = Inr []"
| "subst_list ctx (x # xs) =
     (case dict_get_self ctx x of
        Inl e \<Rightarrow> Inl e
      | Inr y \<Rightarrow> (case subst_list ctx xs of Inl e \<Rightarrow> Inl e | Inr ys \<Rightarrow> Inr (y # ys)))"

text \<open>\<open>resolve_params\<close> (action.py, and again in main.py): the loop over the items, with
  the dictionary \<open>resolved\<close> as accumulator.\<close>

fun resolve_items :: "pydict \<Rightarrow> pydict \<Rightarrow> pydict \<Rightarrow> pydict result" where
  "resolve_items ctx [] resolved = Inr resolved"
| "resolve_items ctx ((k, v) # ps) resolved =
     (case v of
        PStr s \<Rightarrow>
          (case map_of ctx s of
             Some c \<Rightarrow> resolve_items ctx ps (dict_set resolved k c)
           | None \<Rightarrow> resolve_items ctx ps (dict_set resolved k v))
      | PList xs \<Rightarrow>
          (case subst_list ctx xs of
             Inl e \<Rightarrow> Inl e
           | Inr ys \<Rightarrow> resolve_items ctx ps (dict_set resolved k (PList ys)))
      | _ \<Rightarrow> resolve_items ctx ps (dict_set resolved k v))"

definition resolve_params :: "pydict \<Rightarrow> pydict \<Rightarrow> pydict result" where
  "resolve_params params ctx = resolve_items ctx params []"

text \<open>Step 1 of \<open>resolve_params_with_llm\<close>: the accumulators are \<open>resolved\<close> and
  \<open>unresolved\<close>. Every value that is neither a context key nor a list is unresolved.\<close>

fun first_pass :: "pydict \<Rightarrow> pydict \<Rightarrow> pydict \<times> pydict \<Rightarrow> (pydict \<times> pydict) result" where
  "first_pass ctx [] (resolved, unresolved) = Inr (resolved, unresolved)"
| "first_pass ctx ((k, v) # ps) (resolved, unresolved) =
     (case v of
        PStr s \<Rightarrow>
          (case map_of ctx s of
             Some c \<Rightarrow> first_pass ctx ps (dict_set resolved k c, unresolved)
           | None \<Rightarrow> first_pass ctx ps (resolved, dict_set unresolved k v))
      | PList xs \<Rightarrow>
          (case subst_list ctx xs of
             Inl e \<Rightarrow> Inl e
           | Inr ys \<Rightarrow> first_pass ctx ps (dict_set resolved k (PList ys), unresolved))
      | _ \<Rightarrow> first_pass ctx ps (resolved, dict_set unresolved k v))"

text \<open>Step 2: the collaborator's answer. Every exception of the \<open>try\<close> block, the call's
  as well as the decoder's, leaves the empty dictionary.\<close>

definition llm_result_of :: "runtime \<Rightarrow> llm_response \<Rightarrow> pyval" where
  "llm_result_of rt resp =
     (case resp of
        Raises e \<Rightarrow> PDict []
      | Responds None \<Rightarrow> PDict []
      | Responds (Some raw) \<Rightarrow>
          (case json_loads rt (resolver_text raw) of
             Inl e \<Rightarrow> PDict []
           | Inr v \<Rightarrow> v))"

text \<open>
  \<open>k in llm_result and llm_result[k] is not None\<close>, giving the answer to merge if there
  is one. The decoded value need not be a dictionary: membership in a list or a string
  succeeds by element or substring and the subscript then raises TypeError; a number,
  a boolean or \<open>None\<close> is no container at all.
\<close>

fun llm_answer :: "pyval \<Rightarrow> string \<Rightarrow> pyval option result" where
  "llm_answer (PDict d) k =
     (case map_of d k of
        None \<Rightarrow> Inr None
      | Some PNone \<Rightarrow> Inr None
      | Some a \<Rightarrow> Inr (Some a))"
| "llm_answer (PList xs) k = (if PStr k \<in> set xs then Inl TypeError else Inr None)"
| "llm_answer (PStr s) k = (if contains s k then Inl TypeError else Inr None)"
| "llm_answer _ k = Inl TypeError"

text \<open>Step 3: the loop that builds \<open>final\<close>.\<close>

fun merge_final :: "pydict \<Rightarrow> pydict \<Rightarrow> pyval \<Rightarrow> pydict \<Rightarrow> pydict result" where
  "merge_final [] resolved llm_result final = Inr final"
| "merge_final ((k, v) # ps) resolved llm_result final =
     (case map_of resolved k of
        Some r \<Rightarrow> merge_final ps resolved llm_result (dict_set final k r)
      | None \<Rightarrow>
          (case llm_answer llm_result k of
             Inl e \<Rightarrow> Inl e
           | Inr (Some a) \<Rightarrow> merge_final ps resolved llm_result (dict_set final k a)
           | Inr None \<Rightarrow> merge_final ps resolved llm_result (dict_set final k v)))"

text \<open>The result and the number of collaborator calls made so far.\<close>

definition resolve_params_with_llm ::
  "runtime \<Rightarrow> llm \<Rightarrow> nat \<Rightarrow> pydict \<Rightarrow> pydict \<Rightarrow> pydict result \<times> nat" where
  "resolve_params_with_llm rt ask n params ctx =
     (case first_pass ctx params ([], []) of
        Inl e \<Rightarrow> (Inl e, n)
      | Inr (resolved, unresolved) \<Rightarrow>
          if unresolved = [] \<or> ctx = [] then (Inr (dict_update params resolved), n)
          else (merge_final params resolved (llm_result_of rt (ask n)) [], Suc n))"

section \<open>The planner (decision.py)\<close>

text \<open>\<open>Step\<close> and \<open>ActionInput\<close> have the same two fields; one record serves for both.
  \<open>Step\<close> accepts only the four names of \<open>AllowedFn\<close>, which \<open>make_step\<close> checks.\<close>

type_synonym Step = ActionInput

record DecisionOutput =
  next_step :: "Step option"
  done_flag :: bool
  rationale :: "string option"

definition AllowedFn :: "string list" where
  "AllowedFn =
     [''get_financial_data'', ''calculate_roi'', ''apply_inflation_adjustment'',
      ''generate_chart'']"

text \<open>Validation of \<open>Step(function_name=..., parameters=...)\<close>.\<close>

definition make_step :: "pyval \<Rightarrow> pyval \<Rightarrow> Step result" where
  "make_step name ps =
     (case (name, ps) of
        (PStr f, PDict d) \<Rightarrow>
          if f \<in> set AllowedFn then Inr \<lparr>function_name = f, parameters = d\<rparr>
          else Inl ValidationError
      | _ \<Rightarrow> Inl ValidationError)"

text \<open>\<open>"function_name" in data\<close> for a decoded value of any type.\<close>

fun py_in :: "string \<Rightarrow> pyval \<Rightarrow> bool result" where
  "py_in k (PDict d) = Inr (k \<in> set (map fst d))"
| "py_in k (PList xs) = Inr (PStr k \<in> set xs)"
| "py_in k (PStr s) = Inr (contains s k)"
| "py_in k _ = Inl TypeError"

definition completed :: DecisionOutput where
  "completed = \<lparr>next_step = None, done_flag = True, rationale = Some ''All steps completed''\<rparr>"

definition decision_failed :: "runtime \<Rightarrow> py_exception \<Rightarrow> DecisionOutput" where
  "decision_failed rt e =
     \<lparr>next_step = None, done_flag = True,
      rationale = Some (''LLM decision failed: '' @ str_exception rt e)\<rparr>"

text \<open>The body of the \<open>try\<close> block after the text is decoded.\<close>

definition decide_from_data :: "runtime \<Rightarrow> pyval \<Rightarrow> DecisionOutput" where
  "decide_from_data rt data =
     (if \<not> truthy data then completed
      else
        (case py_in ''function_name'' data of
           Inl e \<Rightarrow> decision_failed rt e
         | Inr False \<Rightarrow> completed
         | Inr True \<Rightarrow>
             (case data of
                PDict d \<Rightarrow>
                  (case make_step (kwarg d ''function_name'')
                          (case map_of d ''parameters'' of None \<Rightarrow> PDict [] | Some p \<Rightarrow> p) of
                     Inl e \<Rightarrow> decision_failed rt e
                   | Inr step \<Rightarrow>
                       \<lparr>next_step = Some step, done_flag = False,
                        rationale = Some ''Next actionable step''\<rparr>)
              | _ \<Rightarrow> decision_failed rt TypeError)))"

text \<open>The decision and the number of collaborator calls made so far. The context and
  the executed steps only enter the prompt.\<close>

definition decide_next_step :: "runtime \<Rightarrow> llm \<Rightarrow> nat \<Rightarrow> DecisionOutput \<times> nat" where
  "decide_next_step rt ask n =
     (case ask n of
        Raises e \<Rightarrow> (decision_failed rt e, Suc n)
      | Responds None \<Rightarrow> (decision_failed rt AttributeError, Suc n)
      | Responds (Some raw) \<Rightarrow>
          (case json_loads rt (planner_text raw) of
             Inl e \<Rightarrow> (decision_failed rt e, Suc n)
           | Inr data \<Rightarrow> (decide_from_data rt data, Suc n)))"

section \<open>The loop driver (main.py)\<close>

text \<open>\<open>flatten_dict(prefix, d)\<close>, with the dictionary \<open>out\<close> as accumulator.\<close>

fun flatten_items :: "string \<Rightarrow> pydict \<Rightarrow> pydict \<Rightarrow> pydict" where
  "flatten_items prefix [] out = out"
| "flatten_items prefix ((k, v) # d) out =
     (case v of
        PDict e \<Rightarrow>
          flatten_items prefix d
            (dict_update out (flatten_items (prefix @ ''_'' @ k) e []))
      | _ \<Rightarrow> flatten_items prefix d (dict_set out (prefix @ ''_'' @ k) v))"

definition flatten_dict :: "string \<Rightarrow> pydict \<Rightarrow> pydict" where
  "flatten_dict prefix d = flatten_items prefix d []"

text \<open>The update of the context from \<open>ao.result\<close>.\<close>

fun merge_result :: "pydict \<Rightarrow> pydict \<Rightarrow> pydict" where
  "merge_result ctx [] = ctx"
| "merge_result ctx ((key, val) # r) =
     merge_result
       (case val of
          PDict d \<Rightarrow> dict_update ctx (flatten_dict key d)
        | _ \<Rightarrow> dict_set ctx key val) r"

definition update_context :: "pydict \<Rightarrow> ActionOutput \<Rightarrow> pydict" where
  "update_context ctx ao =
     (if success ao \<and> result ao \<noteq> [] then merge_result ctx (result ao) else ctx)"







section \<open>Reference formulas taken from the specification\<close>





text \<open>"All quarters whose label contains that year", for a symbol of the table.\<close>

definition quarters_of_year :: "string \<Rightarrow> string \<Rightarrow> pyval" where
  "quarters_of_year symbol year =
     quarters_value (filter (\<lambda>(quarter, d). contains quarter year)
       (case map_of DUMMY_DATA symbol of Some table \<Rightarrow> table | None \<Rightarrow> []))"

section \<open>A concrete interpreter for the examples\<close>

text \<open>A decoder that knows a few JSON texts, and fixed renderings: enough to run the
  definitions on concrete inputs.\<close>

definition example_loads :: "string \<Rightarrow> pyval result" where
  \<open>example_loads text =
     (if text = ''{}'' then Inr (PDict [])
      else if text = ''null'' then Inr PNone
      else if text = ''{"revenue": 100}'' then Inr (PDict [(''revenue'', PInt 100)])
      else if text = ''{"function_name": "calculate_roi", "parameters": {"revenue": 90.8, "investment": 24.6}}''
      then Inr (PDict [(''function_name'', PStr ''calculate_roi''),
                       (''parameters'', PDict [(''revenue'', PFloat 90.8),
                                               (''investment'', PFloat 24.6)])])
      else Inl JSONDecodeError)\<close>

definition example_runtime :: runtime where
  "example_runtime =
     \<lparr>str_other = (\<lambda>v. ''<value>''),
      str_exception = (\<lambda>e. case e of Fault d \<Rightarrow> d | _ \<Rightarrow> ''<exception>''),
      json_loads = example_loads\<rparr>"

text \<open>A collaborator for the examples: a fenced plan step on the first call, a fault on
  the second, the empty object from then on.\<close>

definition example_ask :: llm where
  \<open>example_ask n =
     (if n = 0 then Responds (Some ''```json
{"function_name": "calculate_roi", "parameters": {"revenue": 90.8, "investment": 24.6}}
```'')
      else if n = 1 then Raises (Fault ''503 service unavailable'')
      else Responds (Some ''{}''))\<close>

text \<open>
  "Already fully resolved", as the specification words it: no value is a placeholder,
  that is a string naming a context key, and no list holds one.
\<close>

definition placeholder :: "pydict \<Rightarrow> pyval \<Rightarrow> bool" where
  "placeholder ctx v = (case v of PStr s \<Rightarrow> s \<in> set (map fst ctx) | _ \<Rightarrow> False)"

definition fully_resolved :: "pydict \<Rightarrow> pydict \<Rightarrow> bool" where
  "fully_resolved ctx params =
     list_all (\<lambda>(k, v). \<not> placeholder ctx v \<and>
        (case v of PList xs \<Rightarrow> list_all (\<lambda>x. \<not> placeholder ctx x) xs | _ \<Rightarrow> True)) params"

text \<open>Every list value holds hashable elements only (no nested list or dictionary).\<close>

definition scalar_lists :: "pydict \<Rightarrow> bool" where
  "scalar_lists params =
     list_all (\<lambda>(k, v). case v of PList xs \<Rightarrow> list_all hashable xs | _ \<Rightarrow> True) params"

definition is_list_item :: "string \<times> pyval \<Rightarrow> bool" where
  "is_list_item p = (case snd p of PList xs \<Rightarrow> True | _ \<Rightarrow> False)"

text \<open>What the merge loop leaves for an item of a fully resolved mapping when the
  collaborator's answer decodes to the object \<open>d\<close>: a list is kept, any other value is
  replaced by the answer under its key unless there is none or it is \<open>None\<close>.\<close>

definition answered :: "pydict \<Rightarrow> string \<times> pyval \<Rightarrow> string \<times> pyval" where
  "answered d p =
     (case p of
        (k, v) \<Rightarrow>
          (k, if is_list_item (k, v) then v
              else (case map_of d k of None \<Rightarrow> v | Some PNone \<Rightarrow> v | Some a \<Rightarrow> a)))"

section \<open>Properties of calculate_roi\<close>









text \<open>
  Claim C7. For two lists of different lengths, \<open>calculate_roi\<close> returns the error
  value and raises nothing: the length test precedes every arithmetic operation.
\<close>

theorem roi_mismatched_lengths:
  "length rs \<noteq> length is \<Longrightarrow>
   calculate_roi (PList rs) (PList is) =
     Inr (error_value ''Revenue and investment lists must be the same length'')"
  by (simp add: calculate_roi_def)

theorem roi_mismatched_lengths_witness:
  "calculate_roi (PList [PFloat 90.8, PFloat 85.3]) (PList [PFloat 24.6]) =
     Inr (PDict [(''error'', PStr ''Revenue and investment lists must be the same length'')])"
  using roi_mismatched_lengths [of "[PFloat 90.8, PFloat 85.3]" "[PFloat 24.6]"]
  by (simp add: error_value_def)

section \<open>Properties of get_financial_data\<close>

lemma dummy_labels:
  "map_of DUMMY_DATA symbol = Some table \<Longrightarrow> map_of table q = Some d \<Longrightarrow>
   q \<noteq> [] \<and> q \<noteq> ''2023'' \<and> q \<noteq> ''2024''"
  by (auto simp: DUMMY_DATA_def split: if_splits)

lemma aapl_table:
  "map_of DUMMY_DATA ''AAPL'' = Some
     [(''Q1_2023'', metrics 94.8 25.1 24.2 70.6),
      (''Q2_2023'', metrics 81.8 23.8 19.9 61.9),
      (''Q3_2023'', metrics 89.5 24.3 22.6 66.9),
      (''Q4_2023'', metrics 119.6 27.5 33.9 85.7),
      (''Q1_2024'', metrics 90.8 24.6 23.1 67.7),
      (''Q2_2024'', metrics 85.3 24.1 21.5 63.8)]"
  by (simp add: DUMMY_DATA_def)

lemma tsla_unknown: "map_of DUMMY_DATA ''TSLA'' = None"
  by (simp add: DUMMY_DATA_def)

text \<open>
  Claim C5, as amended. For a string symbol: an unknown symbol returns the error value;
  an omitted period, and also the empty string, returns all periods of the symbol; the
  period "2023" or "2024" (the two years the code tests for, not any 4-digit year)
  returns the quarters whose label contains it; an exact quarter label returns that
  single entry; every other non-empty string returns the error value.
\<close>

theorem get_financial_data_cases:
  "(map_of DUMMY_DATA symbol = None \<longrightarrow>
      get_financial_data rt (PStr symbol) period =
        Inr (error_value (''No data available for symbol '' @ symbol))) \<and>
   (map_of DUMMY_DATA symbol = Some table \<longrightarrow>
      get_financial_data rt (PStr symbol) PNone = Inr (quarters_value table) \<and>
      get_financial_data rt (PStr symbol) (PStr []) = Inr (quarters_value table) \<and>
      (year = ''2023'' \<or> year = ''2024'' \<longrightarrow>
         get_financial_data rt (PStr symbol) (PStr year) = Inr (quarters_of_year symbol year)) \<and>
      (map_of table q = Some d \<longrightarrow>
         get_financial_data rt (PStr symbol) (PStr q) = Inr (PDict [(q, PDict d)])) \<and>
      (p \<noteq> [] \<and> p \<noteq> ''2023'' \<and> p \<noteq> ''2024'' \<and> map_of table p = None \<longrightarrow>
         get_financial_data rt (PStr symbol) (PStr p) =
           Inr (error_value (''No data available for period '' @ p))))"
proof (intro conjI impI)
  assume "map_of DUMMY_DATA symbol = None"
  then show "get_financial_data rt (PStr symbol) period =
      Inr (error_value (''No data available for symbol '' @ symbol))"
    by (simp add: get_financial_data_def)
next
  assume "map_of DUMMY_DATA symbol = Some table"
  then show "get_financial_data rt (PStr symbol) PNone = Inr (quarters_value table)"
    by (simp add: get_financial_data_def)
next
  assume "map_of DUMMY_DATA symbol = Some table"
  then show "get_financial_data rt (PStr symbol) (PStr []) = Inr (quarters_value table)"
    by (simp add: get_financial_data_def)
next
  assume "map_of DUMMY_DATA symbol = Some table" and "year = ''2023'' \<or> year = ''2024''"
  then show "get_financial_data rt (PStr symbol) (PStr year) =
      Inr (quarters_of_year symbol year)"
    by (auto simp: get_financial_data_def quarters_of_year_def)
next
  assume t: "map_of DUMMY_DATA symbol = Some table" and q: "map_of table q = Some d"
  from dummy_labels [OF t q] t q
  show "get_financial_data rt (PStr symbol) (PStr q) = Inr (PDict [(q, PDict d)])"
    by (simp add: get_financial_data_def)
next
  assume "map_of DUMMY_DATA symbol = Some table"
    and "p \<noteq> [] \<and> p \<noteq> ''2023'' \<and> p \<noteq> ''2024'' \<and> map_of table p = None"
  then show "get_financial_data rt (PStr symbol) (PStr p) =
      Inr (error_value (''No data available for period '' @ p))"
    by (simp add: get_financial_data_def)
qed

theorem get_financial_data_cases_witness:
  "get_financial_data example_runtime (PStr ''TSLA'') PNone =
     Inr (PDict [(''error'', PStr ''No data available for symbol TSLA'')]) \<and>
   get_financial_data example_runtime (PStr ''AAPL'') (PStr ''2024'') =
     Inr (PDict [(''Q1_2024'', PDict (metrics 90.8 24.6 23.1 67.7)),
                 (''Q2_2024'', PDict (metrics 85.3 24.1 21.5 63.8))]) \<and>
   get_financial_data example_runtime (PStr ''AAPL'') (PStr ''Q1_2024'') =
     Inr (PDict [(''Q1_2024'', PDict (metrics 90.8 24.6 23.1 67.7))]) \<and>
   get_financial_data example_runtime (PStr ''AAPL'') (PStr ''Q3_2024'') =
     Inr (PDict [(''error'', PStr ''No data available for period Q3_2024'')])"
  using
    get_financial_data_cases [of "''TSLA''" example_runtime PNone "[]" "''2024''" "''Q1''"
      "[]" "''Q3''"]
    get_financial_data_cases [of "''AAPL''" example_runtime PNone
      "[(''Q1_2023'', metrics 94.8 25.1 24.2 70.6),
        (''Q2_2023'', metrics 81.8 23.8 19.9 61.9),
        (''Q3_2023'', metrics 89.5 24.3 22.6 66.9),
        (''Q4_2023'', metrics 119.6 27.5 33.9 85.7),
        (''Q1_2024'', metrics 90.8 24.6 23.1 67.7),
        (''Q2_2024'', metrics 85.3 24.1 21.5 63.8)]"
      "''2024''" "''Q1_2024''" "metrics 90.8 24.6 23.1 67.7" "''Q3_2024''"]
  by (simp add: aapl_table tsla_unknown error_value_def quarters_of_year_def
      quarters_value_def)

text \<open>
  The claim as first stated fails at the 4-digit year "2025": the code returns the error
  value, not the (empty) dictionary of the quarters whose label contains "2025".
\<close>

theorem year_2025_counterexample:
  "get_financial_data example_runtime (PStr ''AAPL'') (PStr ''2025'') =
     Inr (error_value ''No data available for period 2025'') \<and>
   get_financial_data example_runtime (PStr ''AAPL'') (PStr ''2025'') \<noteq>
     Inr (quarters_of_year ''AAPL'' ''2025'')"
  by (simp add: get_financial_data_def aapl_table quarters_of_year_def quarters_value_def
      error_value_def)

section \<open>Properties of the dispatcher\<close>

text \<open>
  Claim C10. Every call of \<open>execute_action\<close> with the function name "generate_chart"
  returns a failure result, whatever the parameters: the name is not defined, the
  NameError is caught and its text becomes the message.
\<close>

theorem generate_chart_always_fails:
  "execute_action rt \<lparr>function_name = ''generate_chart'', parameters = ps\<rparr> =
     \<lparr>success = False, result = [],
      message = str_exception rt (NameError ''generate_chart'')\<rparr>"
  by (simp add: execute_action_def action_output_def)

section \<open>Properties of apply_inflation_adjustment and of the error values\<close>





lemma action_output_return:
  "action_output rt name (Inr res) =
     \<lparr>success = True, result = [(name, res)], message = name @ '' executed.''\<rparr>"
  by (simp add: action_output_def)





section \<open>Domain errors pass the dispatcher as successes\<close>

lemma flatten_error:
  "flatten_dict name [(''error'', PStr reason)] = [(name @ ''_error'', PStr reason)]"
  by (simp add: flatten_dict_def)

lemma update_context_error:
  "update_context ctx \<lparr>success = True, result = [(name, error_value reason)], message = m\<rparr> =
     dict_set ctx (name @ ''_error'') (PStr reason)"
  by (simp add: update_context_def error_value_def flatten_error)

text \<open>
  Claim C9. When the dispatched tool returns a value without raising, also a
  domain-error dictionary, \<open>execute_action\<close> reports success with that value stored
  under the function's name; the loop driver's context update then flattens an error
  dictionary into the key \<open>get_financial_data_error\<close> (unknown symbol) or
  \<open>calculate_roi_error\<close> (lists of different lengths). \<open>success = False\<close> is produced
  exactly for a name outside the four known ones and for a call that raises (which the
  call of the undefined \<open>generate_chart\<close> always does).
\<close>

theorem domain_error_reported_as_success:
  "(call_get_financial_data rt ps = Inr res \<longrightarrow>
      execute_action rt \<lparr>function_name = ''get_financial_data'', parameters = ps\<rparr> =
        \<lparr>success = True, result = [(''get_financial_data'', res)],
         message = ''get_financial_data executed.''\<rparr>) \<and>
   (call_calculate_roi ps = Inr res \<longrightarrow>
      execute_action rt \<lparr>function_name = ''calculate_roi'', parameters = ps\<rparr> =
        \<lparr>success = True, result = [(''calculate_roi'', res)],
         message = ''calculate_roi executed.''\<rparr>) \<and>
   (call_apply_inflation_adjustment ps = Inr res \<longrightarrow>
      execute_action rt \<lparr>function_name = ''apply_inflation_adjustment'', parameters = ps\<rparr> =
        \<lparr>success = True, result = [(''apply_inflation_adjustment'', res)],
         message = ''apply_inflation_adjustment executed.''\<rparr>) \<and>
   (map_of DUMMY_DATA symbol = None \<longrightarrow>
      execute_action rt
          \<lparr>function_name = ''get_financial_data'', parameters = [(''symbol'', PStr symbol)]\<rparr> =
        \<lparr>success = True,
         result = [(''get_financial_data'',
                    error_value (''No data available for symbol '' @ symbol))],
         message = ''get_financial_data executed.''\<rparr> \<and>
      update_context ctx
          (execute_action rt
            \<lparr>function_name = ''get_financial_data'',
             parameters = [(''symbol'', PStr symbol)]\<rparr>) =
        dict_set ctx ''get_financial_data_error''
          (PStr (''No data available for symbol '' @ symbol))) \<and>
   (length rs \<noteq> length is \<longrightarrow>
      update_context ctx
          (execute_action rt
            \<lparr>function_name = ''calculate_roi'',
             parameters = [(''revenue'', PList rs), (''investment'', PList is)]\<rparr>) =
        dict_set ctx ''calculate_roi_error''
          (PStr ''Revenue and investment lists must be the same length'')) \<and>
   (success (execute_action rt ai) = False \<longleftrightarrow>
      (function_name ai \<notin> set AllowedFn \<or>
       function_name ai = ''generate_chart'' \<or>
       (function_name ai = ''get_financial_data'' \<and>
          isl (call_get_financial_data rt (parameters ai))) \<or>
       (function_name ai = ''calculate_roi'' \<and> isl (call_calculate_roi (parameters ai))) \<or>
       (function_name ai = ''apply_inflation_adjustment'' \<and>
          isl (call_apply_inflation_adjustment (parameters ai)))))"
proof (intro conjI impI)
  assume "call_get_financial_data rt ps = Inr res"
  then show "execute_action rt \<lparr>function_name = ''get_financial_data'', parameters = ps\<rparr> =
        \<lparr>success = True, result = [(''get_financial_data'', res)],
         message = ''get_financial_data executed.''\<rparr>"
    by (simp add: execute_action_def action_output_def)
next
  assume "call_calculate_roi ps = Inr res"
  then show "execute_action rt \<lparr>function_name = ''calculate_roi'', parameters = ps\<rparr> =
        \<lparr>success = True, result = [(''calculate_roi'', res)],
         message = ''calculate_roi executed.''\<rparr>"
    by (simp add: execute_action_def action_output_def)
next
  assume "call_apply_inflation_adjustment ps = Inr res"
  then show "execute_action rt \<lparr>function_name = ''apply_inflation_adjustment'', parameters = ps\<rparr> =
        \<lparr>success = True, result = [(''apply_inflation_adjustment'', res)],
         message = ''apply_inflation_adjustment executed.''\<rparr>"
    by (simp add: execute_action_def action_output_def)
next
  assume u: "map_of DUMMY_DATA symbol = None"
  then have c: "call_get_financial_data rt [(''symbol'', PStr symbol)] =
      Inr (error_value (''No data available for symbol '' @ symbol))"
    by (simp add: call_get_financial_data_def bind_kwargs_def kwarg_def get_financial_data_def)
  then show e: "execute_action rt
          \<lparr>function_name = ''get_financial_data'', parameters = [(''symbol'', PStr symbol)]\<rparr> =
        \<lparr>success = True,
         result = [(''get_financial_data'',
                    error_value (''No data available for symbol '' @ symbol))],
         message = ''get_financial_data executed.''\<rparr>"
    by (simp add: execute_action_def action_output_def)
  show "update_context ctx
          (execute_action rt
            \<lparr>function_name = ''get_financial_data'',
             parameters = [(''symbol'', PStr symbol)]\<rparr>) =
        dict_set ctx ''get_financial_data_error''
          (PStr (''No data available for symbol '' @ symbol))"
    unfolding e update_context_error by simp
next
  assume "length rs \<noteq> length is"
  then have "call_calculate_roi [(''revenue'', PList rs), (''investment'', PList is)] =
      Inr (error_value ''Revenue and investment lists must be the same length'')"
    by (simp add: call_calculate_roi_def bind_kwargs_def kwarg_def calculate_roi_def)
  then have "execute_action rt
            \<lparr>function_name = ''calculate_roi'',
             parameters = [(''revenue'', PList rs), (''investment'', PList is)]\<rparr> =
      \<lparr>success = True,
       result = [(''calculate_roi'',
          error_value ''Revenue and investment lists must be the same length'')],
       message = ''calculate_roi executed.''\<rparr>"
    by (simp add: execute_action_def action_output_def)
  then show "update_context ctx
          (execute_action rt
            \<lparr>function_name = ''calculate_roi'',
             parameters = [(''revenue'', PList rs), (''investment'', PList is)]\<rparr>) =
        dict_set ctx ''calculate_roi_error''
          (PStr ''Revenue and investment lists must be the same length'')"
    unfolding update_context_error by (simp add: update_context_error)
next
  show "success (execute_action rt ai) = False \<longleftrightarrow>
      (function_name ai \<notin> set AllowedFn \<or>
       function_name ai = ''generate_chart'' \<or>
       (function_name ai = ''get_financial_data'' \<and>
          isl (call_get_financial_data rt (parameters ai))) \<or>
       (function_name ai = ''calculate_roi'' \<and> isl (call_calculate_roi (parameters ai))) \<or>
       (function_name ai = ''apply_inflation_adjustment'' \<and>
          isl (call_apply_inflation_adjustment (parameters ai))))"
    by (auto simp: execute_action_def action_output_def AllowedFn_def split: sum.splits)
qed

theorem domain_error_reported_as_success_witness:
  "execute_action example_runtime
       \<lparr>function_name = ''get_financial_data'', parameters = [(''symbol'', PStr ''TSLA'')]\<rparr> =
     \<lparr>success = True,
      result = [(''get_financial_data'',
                 PDict [(''error'', PStr ''No data available for symbol TSLA'')])],
      message = ''get_financial_data executed.''\<rparr> \<and>
   update_context [(''inflation_rates'', PDict [(''2024'', PFloat 0.031)])]
       (execute_action example_runtime
         \<lparr>function_name = ''get_financial_data'',
          parameters = [(''symbol'', PStr ''TSLA'')]\<rparr>) =
     [(''inflation_rates'', PDict [(''2024'', PFloat 0.031)]),
      (''get_financial_data_error'', PStr ''No data available for symbol TSLA'')] \<and>
   update_context []
       (execute_action example_runtime
         \<lparr>function_name = ''calculate_roi'',
          parameters = [(''revenue'', PList [PFloat 90.8, PFloat 85.3]),
                        (''investment'', PList [PFloat 24.6])]\<rparr>) =
     [(''calculate_roi_error'',
       PStr ''Revenue and investment lists must be the same length'')] \<and>
   success (execute_action example_runtime
       \<lparr>function_name = ''plot'', parameters = []\<rparr>) = False"
  using domain_error_reported_as_success [of example_runtime "[]" PNone "''TSLA''"
      "[(''inflation_rates'', PDict [(''2024'', PFloat 0.031)])]"
      "[PFloat 90.8, PFloat 85.3]" "[PFloat 24.6]"
      "\<lparr>function_name = ''plot'', parameters = []\<rparr>"]
    domain_error_reported_as_success [of example_runtime "[]" PNone "''TSLA''"
      "[]" "[PFloat 90.8, PFloat 85.3]" "[PFloat 24.6]"
      "\<lparr>function_name = ''plot'', parameters = []\<rparr>"]
  by (simp add: tsla_unknown error_value_def AllowedFn_def)

section \<open>Properties of the planner\<close>

text \<open>
  Claim C1. In one invocation of the planner: a response that fails to decode, and a
  response that decodes to a dictionary without the key \<open>function_name\<close> (the empty
  object included), end in DONE with a rationale; a fault raised by the collaborator
  call ends in DONE with a rationale that carries the fault's description. Every
  invocation consults the collaborator exactly once, always yields a rationale, and is
  DONE exactly when it yields no next step: there is no failed state and no retry.
\<close>

theorem planner_ends_with_done:
  "(ask n = Responds (Some raw) \<and> json_loads rt (planner_text raw) = Inl e \<longrightarrow>
      decide_next_step rt ask n =
        (\<lparr>next_step = None, done_flag = True,
          rationale = Some (''LLM decision failed: '' @ str_exception rt e)\<rparr>, Suc n)) \<and>
   (ask n = Responds (Some raw) \<and> json_loads rt (planner_text raw) = Inr (PDict d) \<and>
    ''function_name'' \<notin> set (map fst d) \<longrightarrow>
      decide_next_step rt ask n =
        (\<lparr>next_step = None, done_flag = True, rationale = Some ''All steps completed''\<rparr>,
         Suc n)) \<and>
   (ask n = Raises e \<longrightarrow>
      decide_next_step rt ask n =
        (\<lparr>next_step = None, done_flag = True,
          rationale = Some (''LLM decision failed: '' @ str_exception rt e)\<rparr>, Suc n)) \<and>
   snd (decide_next_step rt ask n) = Suc n \<and>
   rationale (fst (decide_next_step rt ask n)) \<noteq> None \<and>
   done_flag (fst (decide_next_step rt ask n)) =
     (next_step (fst (decide_next_step rt ask n)) = None)"
proof (intro conjI impI)
  assume "ask n = Responds (Some raw) \<and> json_loads rt (planner_text raw) = Inl e"
  then show "decide_next_step rt ask n =
        (\<lparr>next_step = None, done_flag = True,
          rationale = Some (''LLM decision failed: '' @ str_exception rt e)\<rparr>, Suc n)"
    by (simp add: decide_next_step_def decision_failed_def)
next
  assume "ask n = Responds (Some raw) \<and> json_loads rt (planner_text raw) = Inr (PDict d) \<and>
    ''function_name'' \<notin> set (map fst d)"
  then show "decide_next_step rt ask n =
        (\<lparr>next_step = None, done_flag = True, rationale = Some ''All steps completed''\<rparr>,
         Suc n)"
    by (simp add: decide_next_step_def decide_from_data_def completed_def)
next
  assume "ask n = Raises e"
  then show "decide_next_step rt ask n =
        (\<lparr>next_step = None, done_flag = True,
          rationale = Some (''LLM decision failed: '' @ str_exception rt e)\<rparr>, Suc n)"
    by (simp add: decide_next_step_def decision_failed_def)
next
  show "snd (decide_next_step rt ask n) = Suc n"
    by (simp add: decide_next_step_def split: llm_response.splits option.splits sum.splits)
next
  show "rationale (fst (decide_next_step rt ask n)) \<noteq> None"
    by (simp add: decide_next_step_def decide_from_data_def completed_def decision_failed_def
        split: llm_response.splits option.splits sum.splits pyval.splits bool.splits)
next
  show "done_flag (fst (decide_next_step rt ask n)) =
     (next_step (fst (decide_next_step rt ask n)) = None)"
    by (simp add: decide_next_step_def decide_from_data_def completed_def decision_failed_def
        split: llm_response.splits option.splits sum.splits pyval.splits bool.splits)
qed

lemma planner_text_empty_object: "planner_text ''{}'' = ''{}''"
  by (simp add: planner_text_def strip_def strip_chars_def py_isspace_def fenced_json_def)

lemma planner_text_null: "planner_text ''no plan'' = ''no plan''"
  by (simp add: planner_text_def strip_def strip_chars_def py_isspace_def fenced_json_def)

theorem planner_ends_with_done_witness:
  "decide_next_step example_runtime (\<lambda>k. Responds (Some ''no plan'')) 0 =
     (\<lparr>next_step = None, done_flag = True,
       rationale = Some ''LLM decision failed: <exception>''\<rparr>, 1) \<and>
   decide_next_step example_runtime example_ask 2 =
     (\<lparr>next_step = None, done_flag = True, rationale = Some ''All steps completed''\<rparr>, 3) \<and>
   decide_next_step example_runtime example_ask 1 =
     (\<lparr>next_step = None, done_flag = True,
       rationale = Some ''LLM decision failed: 503 service unavailable''\<rparr>, 2)"
  using planner_ends_with_done [of "\<lambda>k. Responds (Some ''no plan'')" 0 "''no plan''"
      example_runtime JSONDecodeError "[]"]
    planner_ends_with_done [of example_ask 2 "''{}''" example_runtime
      "Fault ''503 service unavailable''" "[]"]
    planner_ends_with_done [of example_ask 1 "''{}''" example_runtime
      "Fault ''503 service unavailable''" "[]"]
  by (simp add: example_ask_def example_runtime_def example_loads_def
      planner_text_empty_object planner_text_null)

section \<open>The loop driver only grows its state\<close>

lemma keys_dict_set: "keys (dict_set d k v) = insert k (keys d)"
  by (induction d k v rule: dict_set.induct) (auto simp: keys_def)

lemma keys_dict_update: "keys (dict_update d e) = keys d \<union> keys e"
proof (induction d e rule: dict_update.induct)
  case (1 d)
  then show ?case by (simp add: keys_def)
next
  case (2 d k v e)
  have "keys ((k, v) # e) = insert k (keys e)" by (simp add: keys_def)
  with 2 show ?case by (simp add: keys_dict_set)
qed













section \<open>Properties of the parameter resolver\<close>

text \<open>Whenever the resolver returns a mapping, its keys are the keys of the input.\<close>

lemma first_pass_keys:
  "first_pass ctx ps (res, unres) = Inr (res', unres') \<Longrightarrow>
   keys res' \<union> keys unres' = keys res \<union> keys unres \<union> keys ps"
proof (induction ps arbitrary: res unres)
  case Nil
  then show ?case by (simp add: keys_def)
next
  case (Cons p ps)
  obtain k v where p: "p = (k, v)" by (cases p)
  have kp: "keys (p # ps) = insert k (keys ps)" by (simp add: keys_def p)
  show ?case
  proof (cases v)
    case (PStr s)
    show ?thesis
    proof (cases "map_of ctx s")
      case None
      with Cons.prems p PStr have "first_pass ctx ps (res, dict_set unres k v) = Inr (res', unres')"
        by simp
      from Cons.IH [OF this] show ?thesis by (auto simp: kp keys_dict_set)
    next
      case (Some c)
      with Cons.prems p PStr have "first_pass ctx ps (dict_set res k c, unres) = Inr (res', unres')"
        by simp
      from Cons.IH [OF this] show ?thesis by (auto simp: kp keys_dict_set)
    qed
  next
    case (PList xs)
    with Cons.prems p obtain ys where
      "first_pass ctx ps (dict_set res k (PList ys), unres) = Inr (res', unres')"
      by (auto split: sum.splits)
    from Cons.IH [OF this] show ?thesis by (auto simp: kp keys_dict_set)
  next
    case PNone
    with Cons.prems p have "first_pass ctx ps (res, dict_set unres k v) = Inr (res', unres')"
      by simp
    from Cons.IH [OF this] show ?thesis by (auto simp: kp keys_dict_set)
  next
    case (PBool b)
    with Cons.prems p have "first_pass ctx ps (res, dict_set unres k v) = Inr (res', unres')"
      by simp
    from Cons.IH [OF this] show ?thesis by (auto simp: kp keys_dict_set)
  next
    case (PInt i)
    with Cons.prems p have "first_pass ctx ps (res, dict_set unres k v) = Inr (res', unres')"
      by simp
    from Cons.IH [OF this] show ?thesis by (auto simp: kp keys_dict_set)
  next
    case (PFloat r)
    with Cons.prems p have "first_pass ctx ps (res, dict_set unres k v) = Inr (res', unres')"
      by simp
    from Cons.IH [OF this] show ?thesis by (auto simp: kp keys_dict_set)
  next
    case (PDict d)
    with Cons.prems p have "first_pass ctx ps (res, dict_set unres k v) = Inr (res', unres')"
      by simp
    from Cons.IH [OF this] show ?thesis by (auto simp: kp keys_dict_set)
  qed
qed

lemma merge_final_keys:
  "merge_final ps resolved lr acc = Inr out \<Longrightarrow> keys out = keys acc \<union> keys ps"
proof (induction ps arbitrary: acc)
  case Nil
  then show ?case by (simp add: keys_def)
next
  case (Cons p ps)
  obtain k v where p: "p = (k, v)" by (cases p)
  have kp: "keys (p # ps) = insert k (keys ps)" by (simp add: keys_def p)
  from Cons.prems p obtain w where "merge_final ps resolved lr (dict_set acc k w) = Inr out"
    by (auto split: option.splits sum.splits)
  from Cons.IH [OF this] show ?case by (auto simp: kp keys_dict_set)
qed

lemma resolver_keeps_keys:
  assumes "fst (resolve_params_with_llm rt ask n params ctx) = Inr out"
  shows "keys out = keys params"
proof (cases "first_pass ctx params ([], [])")
  case (Inl e)
  with assms show ?thesis by (simp add: resolve_params_with_llm_def)
next
  case (Inr pr)
  obtain res unres where pr: "pr = (res, unres)" by (cases pr)
  from first_pass_keys [OF Inr [unfolded pr]]
  have k: "keys res \<union> keys unres = keys params" by (simp add: keys_def)
  show ?thesis
  proof (cases "unres = [] \<or> ctx = []")
    case True
    with assms Inr pr have "out = dict_update params res"
      by (auto simp: resolve_params_with_llm_def)
    with k show ?thesis by (auto simp: keys_dict_update)
  next
    case False
    with assms Inr pr have "merge_final params res (llm_result_of rt (ask n)) [] = Inr out"
      by (auto simp: resolve_params_with_llm_def)
    from merge_final_keys [OF this] show ?thesis by (simp add: keys_def)
  qed
qed

lemma map_of_dict_set: "map_of (dict_set d k v) = (map_of d)(k \<mapsto> v)"
  by (induction d k v rule: dict_set.induct) auto

lemma distinct_dict_set:
  "distinct (map fst d) \<Longrightarrow> distinct (map fst (dict_set d k v))"
proof (induction d k v rule: dict_set.induct)
  case (1 k v)
  then show ?case by simp
next
  case (2 k' v' d k v)
  have "set (map fst (dict_set d k v)) = insert k (set (map fst d))"
    using keys_dict_set [of d k v] by (simp add: keys_def)
  with 2 show ?case by auto
qed

lemma dict_update_other:
  "k \<notin> set (map fst e) \<Longrightarrow> map_of (dict_update d e) k = map_of d k"
  by (induction d e rule: dict_update.induct) (auto simp: map_of_dict_set)

lemma dict_update_lookup:
  "map_of e k = Some c \<Longrightarrow> distinct (map fst e) \<Longrightarrow> map_of (dict_update d e) k = Some c"
proof (induction d e rule: dict_update.induct)
  case (1 d)
  then show ?case by simp
next
  case (2 d k' v e)
  show ?case
  proof (cases "k' = k")
    case True
    with "2.prems" have "c = v" "k \<notin> set (map fst e)" by auto
    then show ?thesis by (simp add: True dict_update_other map_of_dict_set)
  next
    case False
    with "2.prems" "2.IH" show ?thesis by simp
  qed
qed

lemma first_pass_step:
  assumes "first_pass ctx ((k, v) # ps) (res, unres) = Inr out"
  shows "\<exists>res1 unres1. first_pass ctx ps (res1, unres1) = Inr out \<and>
           ((\<exists>w. res1 = dict_set res k w \<and> unres1 = unres \<and>
                 (\<forall>s c. v = PStr s \<and> map_of ctx s = Some c \<longrightarrow> w = c)) \<or>
            (res1 = res \<and> unres1 = dict_set unres k v \<and>
             (\<forall>s. v = PStr s \<longrightarrow> map_of ctx s = None)))"
proof (cases v)
  case (PStr s)
  with assms show ?thesis by (cases "map_of ctx s") auto
next
  case (PList xs)
  with assms show ?thesis by (cases "subst_list ctx xs") auto
qed (use assms in auto)

lemma first_pass_other:
  "first_pass ctx ps (res, unres) = Inr (res', unres') \<Longrightarrow> k \<notin> set (map fst ps) \<Longrightarrow>
   map_of res' k = map_of res k"
proof (induction ps arbitrary: res unres)
  case Nil
  then show ?case by simp
next
  case (Cons p ps)
  obtain k0 v0 where p: "p = (k0, v0)" by (cases p)
  from Cons.prems have ne: "k0 \<noteq> k" and rest: "k \<notin> set (map fst ps)"
    by (auto simp: p)
  from first_pass_step [OF Cons.prems(1) [unfolded p]] obtain res1 unres1 where
    r: "first_pass ctx ps (res1, unres1) = Inr (res', unres')"
    and c: "(\<exists>w. res1 = dict_set res k0 w) \<or> res1 = res"
    by blast
  from c ne have "map_of res1 k = map_of res k"
    by (auto simp: map_of_dict_set)
  with Cons.IH [OF r rest] show ?case by simp
qed

lemma first_pass_distinct:
  "first_pass ctx ps (res, unres) = Inr (res', unres') \<Longrightarrow> distinct (map fst res) \<Longrightarrow>
   distinct (map fst res')"
proof (induction ps arbitrary: res unres)
  case Nil
  then show ?case by simp
next
  case (Cons p ps)
  obtain k0 v0 where p: "p = (k0, v0)" by (cases p)
  from first_pass_step [OF Cons.prems(1) [unfolded p]] obtain res1 unres1 where
    r: "first_pass ctx ps (res1, unres1) = Inr (res', unres')"
    and c: "(\<exists>w. res1 = dict_set res k0 w) \<or> res1 = res"
    by blast
  from c Cons.prems(2) have "distinct (map fst res1)"
    by (auto simp: distinct_dict_set)
  with Cons.IH [OF r] show ?case .
qed

lemma first_pass_context_value:
  "first_pass ctx ps (res, unres) = Inr (res', unres') \<Longrightarrow> distinct (map fst ps) \<Longrightarrow>
   (k, PStr s) \<in> set ps \<Longrightarrow> map_of ctx s = Some c \<Longrightarrow> map_of res' k = Some c"
proof (induction ps arbitrary: res unres)
  case Nil
  then show ?case by simp
next
  case (Cons p ps)
  obtain k0 v0 where p: "p = (k0, v0)" by (cases p)
  from first_pass_step [OF Cons.prems(1) [unfolded p]] obtain res1 unres1 where
    r: "first_pass ctx ps (res1, unres1) = Inr (res', unres')"
    and c: "(\<exists>w. res1 = dict_set res k0 w \<and>
               (\<forall>s c. v0 = PStr s \<and> map_of ctx s = Some c \<longrightarrow> w = c)) \<or>
            (\<forall>s. v0 = PStr s \<longrightarrow> map_of ctx s = None)"
    by blast
  from Cons.prems(2) have dist: "distinct (map fst ps)" and fresh: "k0 \<notin> set (map fst ps)"
    by (simp_all add: p)
  show ?case
  proof (cases "(k, PStr s) \<in> set ps")
    case True
    from Cons.IH [OF r dist True Cons.prems(4)] show ?thesis .
  next
    case False
    with Cons.prems(3) have here: "k0 = k" "v0 = PStr s" by (simp_all add: p)
    with c Cons.prems(4) have "res1 = dict_set res k c" by auto
    then have "map_of res1 k = Some c" by (simp add: map_of_dict_set)
    with first_pass_other [OF r] fresh here show ?thesis by simp
  qed
qed

lemma merge_final_other:
  "merge_final ps resolved lr acc = Inr out \<Longrightarrow> k \<notin> set (map fst ps) \<Longrightarrow>
   map_of out k = map_of acc k"
proof (induction ps arbitrary: acc)
  case Nil
  then show ?case by simp
next
  case (Cons p ps)
  obtain k0 v0 where p: "p = (k0, v0)" by (cases p)
  from Cons.prems have ne: "k0 \<noteq> k" and rest: "k \<notin> set (map fst ps)"
    by (auto simp: p)
  from Cons.prems(1) p obtain w where "merge_final ps resolved lr (dict_set acc k0 w) = Inr out"
    by (auto split: option.splits sum.splits)
  from Cons.IH [OF this rest] ne show ?case by (simp add: map_of_dict_set)
qed

lemma merge_final_resolved:
  "merge_final ps resolved lr acc = Inr out \<Longrightarrow> distinct (map fst ps) \<Longrightarrow>
   k \<in> set (map fst ps) \<Longrightarrow> map_of resolved k = Some r \<Longrightarrow> map_of out k = Some r"
proof (induction ps arbitrary: acc)
  case Nil
  then show ?case by simp
next
  case (Cons p ps)
  obtain k0 v0 where p: "p = (k0, v0)" by (cases p)
  from Cons.prems(2) have dist: "distinct (map fst ps)" and fresh: "k0 \<notin> set (map fst ps)"
    by (simp_all add: p)
  show ?case
  proof (cases "k0 = k")
    case True
    with Cons.prems(1,4) p have m: "merge_final ps resolved lr (dict_set acc k r) = Inr out"
      by simp
    from merge_final_other [OF m] fresh True show ?thesis
      by (simp add: map_of_dict_set)
  next
    case False
    with Cons.prems(3) have mem: "k \<in> set (map fst ps)" by (simp add: p)
    from Cons.prems(1) p obtain w where
      "merge_final ps resolved lr (dict_set acc k0 w) = Inr out"
      by (auto split: option.splits sum.splits)
    from Cons.IH [OF this dist mem Cons.prems(4)] show ?thesis .
  qed
qed

text \<open>Whenever the resolver returns, a parameter that names a context key has the
  context's value: no collaborator answer replaces it.\<close>

lemma resolver_prefers_context:
  assumes "fst (resolve_params_with_llm rt ask n params ctx) = Inr out"
    and "distinct (map fst params)"
    and "(k, PStr s) \<in> set params"
    and "map_of ctx s = Some c"
  shows "map_of out k = Some c"
proof (cases "first_pass ctx params ([], [])")
  case (Inl e)
  with assms(1) show ?thesis by (simp add: resolve_params_with_llm_def)
next
  case (Inr pr)
  obtain res unres where pr: "pr = (res, unres)" by (cases pr)
  note fp = Inr [unfolded pr]
  from first_pass_context_value [OF fp assms(2,3,4)] have rk: "map_of res k = Some c" .
  from first_pass_distinct [OF fp] have rd: "distinct (map fst res)" by simp
  show ?thesis
  proof (cases "unres = [] \<or> ctx = []")
    case True
    with assms(1) fp have "out = dict_update params res"
      by (auto simp: resolve_params_with_llm_def)
    with dict_update_lookup [OF rk rd] show ?thesis by simp
  next
    case False
    with assms(1) fp have m: "merge_final params res (llm_result_of rt (ask n)) [] = Inr out"
      by (auto simp: resolve_params_with_llm_def)
    from assms(3) have "k \<in> set (map fst params)" by force
    from merge_final_resolved [OF m assms(2) this rk] show ?thesis .
  qed
qed

text \<open>
  Claim C3 says that the resolver returns, for every parameter mapping and context, a
  mapping with the input's keys. The code does not always return: a list parameter with
  an unhashable element (a nested list) raises TypeError in the first pass, in
  \<open>resolve_params_with_llm\<close> and in \<open>resolve_params\<close> alike, and a collaborator
  response that decodes to \<open>null\<close> raises TypeError in the merge loop, outside the
  \<open>try\<close> block, instead of keeping the original value.
\<close>

theorem resolver_raises_instead_of_returning:
  "resolve_params_with_llm rt ask n [(''data'', PList [PList [PInt 1, PInt 2]])] ctx =
     (Inl TypeError, n) \<and>
   resolve_params [(''data'', PList [PList [PInt 1, PInt 2]])] ctx = Inl TypeError \<and>
   resolve_params_with_llm example_runtime (\<lambda>k. Responds (Some ''null'')) n
       [(''symbol'', PStr ''AAPL'')] [(''inflation_rates'', PDict [])] =
     (Inl TypeError, Suc n)"
  by (simp add: resolve_params_with_llm_def resolve_params_def dict_get_self_def
      llm_result_of_def example_runtime_def example_loads_def resolver_text_def
      strip_def strip_chars_def py_isspace_def fenced_json_def)

section \<open>Resolving a resolved mapping again\<close>

lemma dict_get_self_resolved:
  "hashable x \<Longrightarrow> \<not> placeholder ctx x \<Longrightarrow> dict_get_self ctx x = Inr x"
  by (cases x) (auto simp: dict_get_self_def placeholder_def map_of_eq_None_iff [symmetric]
      split: option.splits)

lemma subst_list_resolved:
  "list_all hashable xs \<Longrightarrow> list_all (\<lambda>x. \<not> placeholder ctx x) xs \<Longrightarrow>
   subst_list ctx xs = Inr xs"
  by (induction xs) (simp_all add: dict_get_self_resolved)

lemma dict_set_same: "map_of d k = Some v \<Longrightarrow> dict_set d k v = d"
  by (induction d k v rule: dict_set.induct) (auto split: if_splits)

lemma dict_set_fresh: "k \<notin> set (map fst d) \<Longrightarrow> dict_set d k v = d @ [(k, v)]"
  by (induction d k v rule: dict_set.induct) auto

lemma dict_update_distinct:
  "distinct (map fst (d @ e)) \<Longrightarrow> dict_update d e = d @ e"
proof (induction d e rule: dict_update.induct)
  case (1 d)
  then show ?case by simp
next
  case (2 d k v e)
  from "2.prems" have f: "k \<notin> set (map fst d)" by auto
  from "2.prems" have "distinct (map fst ((d @ [(k, v)]) @ e))" by auto
  with "2.IH" f show ?case by (simp add: dict_set_fresh)
qed

lemma dict_update_same:
  "(\<And>k v. (k, v) \<in> set e \<Longrightarrow> map_of d k = Some v) \<Longrightarrow> dict_update d e = d"
proof (induction d e rule: dict_update.induct)
  case (1 d)
  then show ?case by simp
next
  case (2 d k v e)
  have "map_of d k = Some v" by (rule "2.prems") simp
  then have "dict_set d k v = d" by (rule dict_set_same)
  with "2.IH" "2.prems" show ?case by simp
qed

lemma not_placeholder_lookup:
  "\<not> placeholder ctx (PStr s) \<Longrightarrow> map_of ctx s = None"
  by (simp add: placeholder_def map_of_eq_None_iff)

lemma resolve_items_resolved:
  "fully_resolved ctx ps \<Longrightarrow> scalar_lists ps \<Longrightarrow>
   resolve_items ctx ps acc = Inr (dict_update acc ps)"
proof (induction ps arbitrary: acc)
  case Nil
  then show ?case by simp
next
  case (Cons p ps)
  obtain k v where p: "p = (k, v)" by (cases p)
  from Cons.prems p have rest: "fully_resolved ctx ps" "scalar_lists ps"
    by (simp_all add: fully_resolved_def scalar_lists_def)
  from Cons.prems p have here: "\<not> placeholder ctx v"
    by (simp add: fully_resolved_def)
  show ?case
  proof (cases v)
    case (PStr s)
    with here have "map_of ctx s = None" by (simp add: not_placeholder_lookup)
    with PStr p Cons.IH [OF rest] show ?thesis by simp
  next
    case (PList xs)
    with Cons.prems p have "list_all hashable xs" "list_all (\<lambda>x. \<not> placeholder ctx x) xs"
      by (simp_all add: fully_resolved_def scalar_lists_def)
    then have "subst_list ctx xs = Inr xs" by (rule subst_list_resolved)
    with PList p Cons.IH [OF rest] show ?thesis by simp
  qed (simp_all add: p Cons.IH [OF rest])
qed

lemma first_pass_resolved:
  "fully_resolved ctx ps \<Longrightarrow> scalar_lists ps \<Longrightarrow>
   first_pass ctx ps (res, unres) =
     Inr (dict_update res (filter is_list_item ps),
          dict_update unres (filter (\<lambda>p. \<not> is_list_item p) ps))"
proof (induction ps arbitrary: res unres)
  case Nil
  then show ?case by simp
next
  case (Cons p ps)
  obtain k v where p: "p = (k, v)" by (cases p)
  from Cons.prems p have rest: "fully_resolved ctx ps" "scalar_lists ps"
    by (simp_all add: fully_resolved_def scalar_lists_def)
  from Cons.prems p have here: "\<not> placeholder ctx v"
    by (simp add: fully_resolved_def)
  show ?case
  proof (cases v)
    case (PStr s)
    with here have "map_of ctx s = None" by (simp add: not_placeholder_lookup)
    with PStr p Cons.IH [OF rest] show ?thesis by (simp add: is_list_item_def)
  next
    case (PList xs)
    with Cons.prems p have "list_all hashable xs" "list_all (\<lambda>x. \<not> placeholder ctx x) xs"
      by (simp_all add: fully_resolved_def scalar_lists_def)
    then have "subst_list ctx xs = Inr xs" by (rule subst_list_resolved)
    with PList p Cons.IH [OF rest] show ?thesis by (simp add: is_list_item_def)
  qed (simp_all add: p Cons.IH [OF rest] is_list_item_def)
qed

lemma merge_final_unchanged:
  "(\<And>k v. (k, v) \<in> set ps \<Longrightarrow>
      (map_of resolved k = None \<or> map_of resolved k = Some v) \<and>
      (map_of d k = None \<or> map_of d k = Some PNone)) \<Longrightarrow>
   merge_final ps resolved (PDict d) acc = Inr (dict_update acc ps)"
proof (induction ps arbitrary: acc)
  case Nil
  then show ?case by simp
next
  case (Cons p ps)
  obtain k v where p: "p = (k, v)" by (cases p)
  have here: "(map_of resolved k = None \<or> map_of resolved k = Some v) \<and>
      (map_of d k = None \<or> map_of d k = Some PNone)"
    by (rule Cons.prems) (simp add: p)
  have ih: "merge_final ps resolved (PDict d) acc' = Inr (dict_update acc' ps)" for acc'
    by (rule Cons.IH) (rule Cons.prems, simp)
  from here show ?case by (auto simp: p ih)
qed

lemma list_items_of_params:
  assumes "distinct (map fst params)"
  shows "dict_update [] (filter is_list_item params) = filter is_list_item params"
    and "(k, v) \<in> set (filter is_list_item params) \<Longrightarrow> map_of params k = Some v"
    and "(k, v) \<in> set params \<Longrightarrow>
         map_of (filter is_list_item params) k = None \<or>
         map_of (filter is_list_item params) k = Some v"
proof -
  from assms have dl: "distinct (map fst (filter is_list_item params))"
    by (rule distinct_map_filter)
  then show "dict_update [] (filter is_list_item params) = filter is_list_item params"
    using dict_update_distinct [of "[]" "filter is_list_item params"] by simp
  show "(k, v) \<in> set (filter is_list_item params) \<Longrightarrow> map_of params k = Some v"
    using assms by simp
  show "map_of (filter is_list_item params) k = None \<or>
        map_of (filter is_list_item params) k = Some v" if kv: "(k, v) \<in> set params"
  proof (cases "map_of (filter is_list_item params) k")
    case None
    then show ?thesis by simp
  next
    case (Some w)
    then have "(k, w) \<in> set params" by (auto dest: map_of_SomeD)
    with assms kv have "w = v" by (meson eq_key_imp_eq_value)
    with Some show ?thesis by simp
  qed
qed

lemma answered_list: "is_list_item (k, v) \<Longrightarrow> answered d (k, v) = (k, v)"
  by (simp add: answered_def)

lemma answered_other:
  "\<not> is_list_item (k, v) \<Longrightarrow>
   answered d (k, v) = (k, case map_of d k of None \<Rightarrow> v | Some PNone \<Rightarrow> v | Some a \<Rightarrow> a)"
  by (simp add: answered_def)

lemma fst_answered: "fst (answered d p) = fst p"
  by (cases p) (simp add: answered_def)

lemma llm_answer_object:
  "llm_answer (PDict d) k =
     Inr (case map_of d k of None \<Rightarrow> None | Some PNone \<Rightarrow> None | Some a \<Rightarrow> Some a)"
  by (simp split: option.splits pyval.splits)

lemma merge_final_answered:
  "(\<And>k v. (k, v) \<in> set ps \<Longrightarrow>
      map_of resolved k = (if is_list_item (k, v) then Some v else None)) \<Longrightarrow>
   merge_final ps resolved (PDict d) acc = Inr (dict_update acc (map (answered d) ps))"
proof (induction ps arbitrary: acc)
  case Nil
  then show ?case by simp
next
  case (Cons p ps)
  obtain k v where p: "p = (k, v)" by (cases p)
  have here: "map_of resolved k = (if is_list_item (k, v) then Some v else None)"
    by (rule Cons.prems) (simp add: p)
  have ih: "merge_final ps resolved (PDict d) acc' =
      Inr (dict_update acc' (map (answered d) ps))" for acc'
    by (rule Cons.IH) (rule Cons.prems, simp)
  show ?case
  proof (cases "is_list_item (k, v)")
    case True
    with here show ?thesis by (simp add: p ih answered_list)
  next
    case False
    with here show ?thesis
      by (simp add: p ih answered_other llm_answer_object del: llm_answer.simps
          split: option.splits pyval.splits)
  qed
qed

lemma dict_update_nonempty: "e \<noteq> [] \<Longrightarrow> dict_update d e \<noteq> []"
proof
  assume "e \<noteq> []" and "dict_update d e = []"
  then have "keys d \<union> keys e = {}"
    using keys_dict_update [of d e] by (simp add: keys_def)
  with \<open>e \<noteq> []\<close> show False by (simp add: keys_def)
qed

lemma list_items_lookup:
  assumes "distinct (map fst params)" and "(k, v) \<in> set params"
  shows "map_of (filter is_list_item params) k = (if is_list_item (k, v) then Some v else None)"
proof (cases "is_list_item (k, v)")
  case True
  from assms(1) have "distinct (map fst (filter is_list_item params))"
    by (rule distinct_map_filter)
  moreover from True assms(2) have "(k, v) \<in> set (filter is_list_item params)" by simp
  ultimately show ?thesis using True by simp
next
  case False
  have "map_of (filter is_list_item params) k = None"
  proof (rule ccontr)
    assume "map_of (filter is_list_item params) k \<noteq> None"
    then obtain w where w: "map_of (filter is_list_item params) k = Some w" by auto
    then have m: "(k, w) \<in> set (filter is_list_item params)" by (rule map_of_SomeD)
    with list_items_of_params(3) [OF assms] w have "w = v" by simp
    with m False show False by simp
  qed
  with False show ?thesis by simp
qed

text \<open>
  Claim C2, as amended. Take a parameter mapping (a dictionary: distinct keys) that is
  fully resolved for the context and whose lists hold hashable elements. Then
  \<open>resolve_params\<close> returns it unchanged. \<open>resolve_params_with_llm\<close> returns it
  unchanged, without asking the collaborator, when the context is empty or every value
  is a list. Otherwise it asks the collaborator once, and when the answer is an object
  (a fault and an undecodable response count as the empty object) it returns the
  mapping with every value that is not a list replaced by the answer under its key,
  if there is one and it is not \<open>None\<close>; in particular the mapping comes back
  unchanged when the answer has no entry other than \<open>None\<close> for its keys.
\<close>

theorem resolver_on_fully_resolved:
  "fully_resolved ctx params \<and> scalar_lists params \<and> distinct (map fst params) \<longrightarrow>
     resolve_params params ctx = Inr params \<and>
     (ctx = [] \<or> list_all is_list_item params \<longrightarrow>
        resolve_params_with_llm rt ask n params ctx = (Inr params, n)) \<and>
     (ctx \<noteq> [] \<and> \<not> list_all is_list_item params \<and> llm_result_of rt (ask n) = PDict d \<longrightarrow>
        resolve_params_with_llm rt ask n params ctx =
          (Inr (map (answered d) params), Suc n)) \<and>
     (llm_result_of rt (ask n) = PDict d \<and>
      list_all (\<lambda>(k, v). map_of d k = None \<or> map_of d k = Some PNone) params \<longrightarrow>
        fst (resolve_params_with_llm rt ask n params ctx) = Inr params)"
proof (intro impI conjI)
  assume h: "fully_resolved ctx params \<and> scalar_lists params \<and> distinct (map fst params)"
  then have fr: "fully_resolved ctx params" and sl: "scalar_lists params"
    and di: "distinct (map fst params)"
    by simp_all
  have whole: "dict_update [] params = params"
    using dict_update_distinct [of "[]" params] di by simp
  show "resolve_params params ctx = Inr params"
    by (simp add: resolve_params_def resolve_items_resolved [OF fr sl] whole)
  have fp: "first_pass ctx params ([], []) =
      Inr (filter is_list_item params,
           dict_update [] (filter (\<lambda>p. \<not> is_list_item p) params))"
    by (simp add: first_pass_resolved [OF fr sl] list_items_of_params(1) [OF di])
  have early: "dict_update params (filter is_list_item params) = params"
    by (rule dict_update_same) (rule list_items_of_params(2) [OF di])
  have none_left: "dict_update [] (filter (\<lambda>p. \<not> is_list_item p) params) = []"
    if "list_all is_list_item params"
  proof -
    from that have "filter (\<lambda>p. \<not> is_list_item p) params = []"
      by (simp add: list_all_iff filter_empty_conv)
    then show ?thesis by simp
  qed
  show "resolve_params_with_llm rt ask n params ctx = (Inr params, n)"
    if "ctx = [] \<or> list_all is_list_item params"
    using that fp early none_left by (auto simp: resolve_params_with_llm_def)
  show "resolve_params_with_llm rt ask n params ctx = (Inr (map (answered d) params), Suc n)"
    if a: "ctx \<noteq> [] \<and> \<not> list_all is_list_item params \<and> llm_result_of rt (ask n) = PDict d"
  proof -
    from a have "filter (\<lambda>p. \<not> is_list_item p) params \<noteq> []"
      by (auto simp: list_all_iff filter_empty_conv)
    then have some_left: "dict_update [] (filter (\<lambda>p. \<not> is_list_item p) params) \<noteq> []"
      by (rule dict_update_nonempty)
    have "distinct (map fst ([] @ map (answered d) params))"
      using di by (simp add: comp_def fst_answered)
    then have same_keys: "dict_update [] (map (answered d) params) = map (answered d) params"
      using dict_update_distinct [of "[]" "map (answered d) params"] by simp
    have "merge_final params (filter is_list_item params) (PDict d) [] =
        Inr (dict_update [] (map (answered d) params))"
      by (rule merge_final_answered) (rule list_items_lookup [OF di])
    with a fp some_left same_keys show ?thesis
      by (simp add: resolve_params_with_llm_def)
  qed
  show "fst (resolve_params_with_llm rt ask n params ctx) = Inr params"
    if a: "llm_result_of rt (ask n) = PDict d \<and>
      list_all (\<lambda>(k, v). map_of d k = None \<or> map_of d k = Some PNone) params"
  proof -
    have "merge_final params (filter is_list_item params) (PDict d) [] =
        Inr (dict_update [] params)"
    proof (rule merge_final_unchanged)
      fix k v
      assume kv: "(k, v) \<in> set params"
      from a kv have "map_of d k = None \<or> map_of d k = Some PNone"
        by (auto simp: list_all_iff)
      with list_items_of_params(3) [OF di kv]
      show "(map_of (filter is_list_item params) k = None \<or>
             map_of (filter is_list_item params) k = Some v) \<and>
            (map_of d k = None \<or> map_of d k = Some PNone)"
        by simp
    qed
    with a fp early whole show ?thesis
      by (simp add: resolve_params_with_llm_def)
  qed
qed

lemma example_answer:
  \<open>llm_result_of example_runtime (Responds (Some ''{"revenue": 100}'')) =
     PDict [(''revenue'', PInt 100)]\<close>
  by (simp add: llm_result_of_def example_runtime_def example_loads_def resolver_text_def
      strip_def strip_chars_def py_isspace_def fenced_json_def)

theorem resolver_on_fully_resolved_witness:
  \<open>fully_resolved [(''inflation_rates'', PDict [])]
     [(''revenue'', PFloat 90.8), (''labels'', PList [PStr ''Q1_2024'', PInt 2])] \<and>
   resolve_params
     [(''revenue'', PFloat 90.8), (''labels'', PList [PStr ''Q1_2024'', PInt 2])]
     [(''inflation_rates'', PDict [])] =
     Inr [(''revenue'', PFloat 90.8), (''labels'', PList [PStr ''Q1_2024'', PInt 2])] \<and>
   resolve_params_with_llm example_runtime (\<lambda>k. Responds (Some ''{"revenue": 100}'')) 0
     [(''revenue'', PFloat 90.8), (''labels'', PList [PStr ''Q1_2024'', PInt 2])]
     [(''inflation_rates'', PDict [])] =
     (Inr [(''revenue'', PInt 100), (''labels'', PList [PStr ''Q1_2024'', PInt 2])], 1) \<and>
   fst (resolve_params_with_llm example_runtime example_ask 1
     [(''revenue'', PFloat 90.8), (''labels'', PList [PStr ''Q1_2024'', PInt 2])]
     [(''inflation_rates'', PDict [])]) =
     Inr [(''revenue'', PFloat 90.8), (''labels'', PList [PStr ''Q1_2024'', PInt 2])]\<close>
  using
    resolver_on_fully_resolved [where ctx = "[(''inflation_rates'', PDict [])]"
      and params = "[(''revenue'', PFloat 90.8), (''labels'', PList [PStr ''Q1_2024'', PInt 2])]"
      and rt = example_runtime and ask = \<open>\<lambda>k. Responds (Some ''{"revenue": 100}'')\<close>
      and n = 0 and d = "[(''revenue'', PInt 100)]"]
    resolver_on_fully_resolved [where ctx = "[(''inflation_rates'', PDict [])]"
      and params = "[(''revenue'', PFloat 90.8), (''labels'', PList [PStr ''Q1_2024'', PInt 2])]"
      and rt = example_runtime and ask = example_ask and n = 1 and d = "[]"]
  by (simp add: fully_resolved_def placeholder_def scalar_lists_def is_list_item_def
      answered_def example_answer)
    (simp add: llm_result_of_def example_ask_def)

text \<open>
  The claim as first stated fails: a mapping with the concrete value 90.8 is escalated
  to the collaborator, since it is neither a context key nor a list, and the
  collaborator's non-null answer replaces it.
\<close>

theorem resolver_changes_resolved_counterexample:
  \<open>fully_resolved [(''inflation_rates'', PDict [])] [(''revenue'', PFloat 90.8)] \<and>
   resolve_params_with_llm example_runtime (\<lambda>k. Responds (Some ''{"revenue": 100}'')) 0
       [(''revenue'', PFloat 90.8)] [(''inflation_rates'', PDict [])] =
     (Inr [(''revenue'', PInt 100)], 1) \<and>
   [(''revenue'', PInt 100)] \<noteq> [(''revenue'', PFloat 90.8)]\<close>
  by (simp add: fully_resolved_def placeholder_def resolve_params_with_llm_def
      llm_result_of_def example_runtime_def example_loads_def resolver_text_def
      strip_def strip_chars_def py_isspace_def fenced_json_def)

end
